theory Spec2Isabelle
  imports Main "HOL-Library.Sublist"
begin

text \<open>
  A model of the Teams chat exporter: the content normalizer, the rendering and the
  incremental store of \<^verbatim>\<open>src/lib/markdown.ts\<close>, the two extraction scripts of
  \<^verbatim>\<open>src/lib/extract.ts\<close> and the analyzer of \<^verbatim>\<open>src/lib/retention.ts\<close>, followed by the
  properties C1 to C10 of its specification.  Files are a map from paths to contents; the
  clock is an argument of the functions that read it; the page of the host application is
  what the scripts observe of it.  Input and output errors of the file system are outside
  the model.
\<close>

section \<open>Strings and character classes\<close>

text \<open>
  JavaScript strings are modelled as \<^typ>\<open>string\<close>: a list of 8-bit code units
  (ASCII and Latin-1).  The regular expressions of the source are translated
  into the list functions below; each definition quotes the expression it embeds.
\<close>

definition is_space :: "char \<Rightarrow> bool" where
  \<comment> \<open>the class \<open>\s\<close>: TAB, LF, VT, FF, CR, space and the no-break space\<close>
  "is_space c \<longleftrightarrow> c \<in> set [CHR 0x09, CHR 0x0A, CHR 0x0B, CHR 0x0C, CHR 0x0D, CHR 0x20, CHR 0xA0]"

definition is_digit :: "char \<Rightarrow> bool" where
  \<comment> \<open>the class \<open>\d\<close>\<close>
  "is_digit c \<longleftrightarrow> c \<in> set ''0123456789''"

function replace_runs :: "(char \<Rightarrow> bool) \<Rightarrow> string \<Rightarrow> string \<Rightarrow> string" where
  \<comment> \<open>\<open>s.replace(/C+/g, r)\<close> for a character class \<open>C\<close>: every maximal run becomes \<open>r\<close>\<close>
  "replace_runs P r [] = []"
| "replace_runs P r (c # cs) =
     (if P c then r @ replace_runs P r (dropWhile P cs) else c # replace_runs P r cs)"
  by pat_completeness auto
termination
  by (relation "measure (\<lambda>(P, r, s). length s)")
     (auto simp: length_dropWhile_le le_imp_less_Suc)

fun replace_all :: "string \<Rightarrow> string \<Rightarrow> string \<Rightarrow> string" where
  \<comment> \<open>\<open>s.replace(/pat/g, rep)\<close> for a non-empty literal \<open>pat\<close>\<close>
  "replace_all pat rep [] = []"
| "replace_all pat rep (c # cs) =
     (if pat \<noteq> [] \<and> prefix pat (c # cs)
      then rep @ replace_all pat rep (drop (length pat - 1) cs)
      else c # replace_all pat rep cs)"

fun replace_first :: "string \<Rightarrow> string \<Rightarrow> string \<Rightarrow> string" where
  \<comment> \<open>\<open>s.replace("pat", rep)\<close> with a string pattern: the first occurrence only\<close>
  "replace_first pat rep [] = (if pat = [] then rep else [])"
| "replace_first pat rep (c # cs) =
     (if prefix pat (c # cs) then rep @ drop (length pat) (c # cs)
      else c # replace_first pat rep cs)"

definition trimStart :: "string \<Rightarrow> string" where
  "trimStart s = dropWhile is_space s"

definition trimEnd :: "string \<Rightarrow> string" where
  "trimEnd s = rev (dropWhile is_space (rev s))"

definition trim :: "string \<Rightarrow> string" where
  "trim s = trimEnd (trimStart s)"

fun split_on :: "char \<Rightarrow> string \<Rightarrow> string list" where
  \<comment> \<open>\<open>s.split(c)\<close>: the empty string gives one empty piece\<close>
  "split_on c [] = [[]]"
| "split_on c (x # xs) =
     (if x = c then [] # split_on c xs
      else (case split_on c xs of l # ls \<Rightarrow> (x # l) # ls | [] \<Rightarrow> [[x]]))"

fun join :: "string \<Rightarrow> string list \<Rightarrow> string" where
  \<comment> \<open>\<open>lines.join(sep)\<close>\<close>
  "join sep [] = []"
| "join sep [l] = l"
| "join sep (l # ls) = l @ sep @ join sep ls"

definition lower :: "char \<Rightarrow> char" where
  \<comment> \<open>case folding of the flag \<open>i\<close> on ASCII letters\<close>
  "lower c = (let n = (of_char c :: nat) in if 65 \<le> n \<and> n \<le> 90 then char_of (n + 32) else c)"

definition ci_prefix :: "string \<Rightarrow> string \<Rightarrow> bool" where
  \<comment> \<open>a lower-case literal matches here, ignoring case\<close>
  "ci_prefix p s \<longleftrightarrow> length p \<le> length s \<and> map lower (take (length p) s) = p"

fun show_nat :: "nat \<Rightarrow> string" where
  "show_nat n =
     (if n < 10 then [char_of (48 + n)] else show_nat (n div 10) @ [char_of (48 + n mod 10)])"

definition show_int :: "int \<Rightarrow> string" where
  \<comment> \<open>an integer inside a template literal\<close>
  "show_int i = (if i < 0 then CHR ''-'' # show_nat (nat (- i)) else show_nat (nat i))"

definition digits_val :: "string \<Rightarrow> int option" where
  \<comment> \<open>the value of a non-empty string of decimal digits\<close>
  "digits_val s =
     (if s \<noteq> [] \<and> list_all is_digit s
      then Some (foldl (\<lambda>a c. 10 * a + (int (of_char c) - 48)) 0 s) else None)"

definition parseInt :: "string \<Rightarrow> int option" where
  \<comment> \<open>\<open>parseInt(s, 10)\<close>: leading white space, a sign, then the longest run of digits;
      \<open>None\<close> is \<open>NaN\<close>\<close>
  "parseInt s =
     (let t = dropWhile is_space s;
          neg = (t \<noteq> [] \<and> hd t = CHR ''-'');
          u = (if t \<noteq> [] \<and> (hd t = CHR ''-'' \<or> hd t = CHR ''+'') then tl t else t)
      in case digits_val (takeWhile is_digit u) of
           None \<Rightarrow> None
         | Some v \<Rightarrow> Some (if neg then - v else v))"

fun js_insert :: "('a \<Rightarrow> 'a \<Rightarrow> int) \<Rightarrow> 'a \<Rightarrow> 'a list \<Rightarrow> 'a list" where
  "js_insert cmp x [] = [x]"
| "js_insert cmp x (y # ys) = (if cmp x y \<le> 0 then x # y # ys else y # js_insert cmp x ys)"

definition js_sort :: "('a \<Rightarrow> 'a \<Rightarrow> int) \<Rightarrow> 'a list \<Rightarrow> 'a list" where
  \<comment> \<open>\<open>xs.sort(cmp)\<close>: a stable sort by the comparator\<close>
  "js_sort cmp xs = foldr (js_insert cmp) xs []"

section \<open>The content normalizer (src/lib/markdown.ts, htmlToText)\<close>

definition line_end :: "char \<Rightarrow> bool" where
  \<comment> \<open>the characters that \<open>.\<close> does not match without the flag \<open>s\<close>\<close>
  "line_end c \<longleftrightarrow> c = CHR 0x0A \<or> c = CHR 0x0D"

fun lazy_until :: "bool \<Rightarrow> string \<Rightarrow> string \<Rightarrow> (string \<times> string) option" where
  \<comment> \<open>\<open>(.*?)close\<close>, ignoring case: the shortest text before \<open>close\<close> and the rest after
      it; \<open>dotall\<close> is the flag \<open>s\<close>\<close>
  "lazy_until dotall close [] = (if close = [] then Some ([], []) else None)"
| "lazy_until dotall close (c # cs) =
     (if ci_prefix close (c # cs) then Some ([], drop (length close) (c # cs))
      else if \<not> dotall \<and> line_end c then None
      else (case lazy_until dotall close cs of
              None \<Rightarrow> None
            | Some (inner, rest) \<Rightarrow> Some (c # inner, rest)))"

function gsub :: "(string \<Rightarrow> (string \<times> string) option) \<Rightarrow> string \<Rightarrow> string" where
  \<comment> \<open>\<open>s.replace(/re/g, ...)\<close>: \<open>m\<close> matches the expression at the start of the text and
      gives the replacement and the text after the match; the scan goes on after a match
      and one character further otherwise.  No expression of the source matches the empty
      string; the length test only makes that visible to the termination proof.\<close>
  "gsub m [] = []"
| "gsub m (c # cs) =
     (case m (c # cs) of
        None \<Rightarrow> c # gsub m cs
      | Some (rep, rest) \<Rightarrow>
          if length rest \<le> length cs then rep @ gsub m rest else c # gsub m cs)"
  by pat_completeness auto
termination
  by (relation "measure (\<lambda>(m, s). length s)") auto

fun first_some :: "('a \<Rightarrow> 'b option) \<Rightarrow> 'a list \<Rightarrow> 'b option" where
  "first_some f [] = None"
| "first_some f (k # ks) = (case f k of Some v \<Rightarrow> Some v | None \<Rightarrow> first_some f ks)"

definition m_br :: "string \<Rightarrow> (string \<times> string) option" where
  \<comment> \<open>\<open>/<br\s*\/?>/gi\<close> to a newline\<close>
  "m_br s =
     (if ci_prefix ''<br'' s then
        (let r = dropWhile is_space (drop 3 s);
             r' = (case r of [] \<Rightarrow> r | c # t \<Rightarrow> if c = CHR ''/'' then t else r)
         in case r' of [] \<Rightarrow> None | c # t \<Rightarrow> if c = CHR ''>'' then Some ([CHR 0x0A], t) else None)
      else None)"

definition m_block :: "string \<Rightarrow> (string \<times> string) option" where
  \<comment> \<open>\<open>/<\/?(p|div|li|tr)>/gi\<close> to a newline\<close>
  "m_block s =
     (case s of [] \<Rightarrow> None
      | c # r \<Rightarrow>
          if c \<noteq> CHR ''<'' then None
          else (let r' = (case r of [] \<Rightarrow> r | d # t \<Rightarrow> if d = CHR ''/'' then t else r)
                in first_some
                     (\<lambda>tag. if ci_prefix tag r' then Some ([CHR 0x0A], drop (length tag) r') else None)
                     [''p>'', ''div>'', ''li>'', ''tr>'']))"

definition m_pair :: "string \<Rightarrow> string \<Rightarrow> string \<Rightarrow> string \<Rightarrow> (string \<times> string) option" where
  \<comment> \<open>\<open>/<b>(.*?)<\/b>/gi\<close> to \<open>**$1**\<close>, and its siblings\<close>
  "m_pair opn cls mark s =
     (if ci_prefix opn s then
        (case lazy_until False cls (drop (length opn) s) of
           None \<Rightarrow> None
         | Some (inner, rest) \<Rightarrow> Some (mark @ inner @ mark, rest))
      else None)"

definition link_at :: "string \<Rightarrow> nat \<Rightarrow> (string \<times> string) option" where
  \<comment> \<open>the rest of the link expression once \<open>[^>]+\<close> has taken \<open>k\<close> characters\<close>
  "link_at r k =
     (let r1 = drop k r in
      if ci_prefix (''href='' @ [CHR 0x22]) r1 then
        (let r2 = drop 6 r1; url = takeWhile (\<lambda>c. c \<noteq> CHR 0x22) r2
         in case drop (length url) r2 of
              [] \<Rightarrow> None
            | q # r4 \<Rightarrow>
                (case dropWhile (\<lambda>c. c \<noteq> CHR ''>'') r4 of
                   [] \<Rightarrow> None
                 | g # r5 \<Rightarrow>
                     (case lazy_until False ''</a>'' r5 of
                        None \<Rightarrow> None
                      | Some (label, rest) \<Rightarrow> Some (''['' @ label @ '']('' @ url @ '')'', rest))))
      else None)"

definition m_link :: "string \<Rightarrow> (string \<times> string) option" where
  \<comment> \<open>\<open>/<a[^>]+href="([^"]*)"[^>]*>(.*?)<\/a>/gi\<close> to \<open>[$2]($1)\<close>; the greedy \<open>[^>]+\<close>
      gives characters back one at a time, so the last \<open>href\<close> that completes a match wins\<close>
  "m_link s =
     (if ci_prefix ''<a'' s then
        (let r = drop 2 s; n = length (takeWhile (\<lambda>c. c \<noteq> CHR ''>'') r)
         in first_some (link_at r) (rev [1..<Suc n]))
      else None)"

definition m_tag :: "string \<Rightarrow> (string \<times> string) option" where
  \<comment> \<open>\<open>/<[^>]+>/g\<close> to nothing\<close>
  "m_tag s =
     (case s of [] \<Rightarrow> None
      | c # r \<Rightarrow>
          if c \<noteq> CHR ''<'' then None
          else (let run = takeWhile (\<lambda>c. c \<noteq> CHR ''>'') r
                in if run = [] then None
                   else (case drop (length run) r of [] \<Rightarrow> None | g # t \<Rightarrow> Some ([], t))))"

definition m_blockquote :: "string \<Rightarrow> (string \<times> string) option" where
  \<comment> \<open>\<open>/<blockquote>(.*?)<\/blockquote>/gis\<close>: tags stripped, trimmed, every line quoted\<close>
  "m_blockquote s =
     (if ci_prefix ''<blockquote>'' s then
        (case lazy_until True ''</blockquote>'' (drop 12 s) of
           None \<Rightarrow> None
         | Some (content, rest) \<Rightarrow>
             Some (join [CHR 0x0A]
                     (map (\<lambda>l. ''> '' @ l) (split_on (CHR 0x0A) (trim (gsub m_tag content)))),
                   rest))
      else None)"

definition m_newlines :: "string \<Rightarrow> (string \<times> string) option" where
  \<comment> \<open>\<open>/\n{3,}/g\<close> to two newlines\<close>
  "m_newlines s =
     (let run = takeWhile (\<lambda>c. c = CHR 0x0A) s
      in if 3 \<le> length run then Some ([CHR 0x0A, CHR 0x0A], drop (length run) s) else None)"

definition htmlToText :: "string \<Rightarrow> string" where
  "htmlToText html =
     trim (gsub m_newlines
       (replace_all ''&nbsp;'' '' ''
       (replace_all ''&#39;'' [CHR 0x27]
       (replace_all ''&quot;'' [CHR 0x22]
       (replace_all ''&gt;'' ''>''
       (replace_all ''&lt;'' ''<''
       (replace_all ''&amp;'' ''&''
       (gsub m_tag
       (gsub m_blockquote
       (gsub m_link
       (gsub (m_pair ''<code>'' ''</code>'' ''`'')
       (gsub (m_pair ''<em>'' ''</em>'' ''_'')
       (gsub (m_pair ''<i>'' ''</i>'' ''_'')
       (gsub (m_pair ''<strong>'' ''</strong>'' ''**'')
       (gsub (m_pair ''<b>'' ''</b>'' ''**'')
       (gsub m_block
       (gsub m_br html)))))))))))))))))"

section \<open>File names (src/lib/markdown.ts)\<close>

definition hostile :: "char \<Rightarrow> bool" where
  \<comment> \<open>the class \<open>[\/\\:*?"<>|]\<close>\<close>
  "hostile c \<longleftrightarrow> c \<in> set [CHR ''/'', CHR 0x5C, CHR '':'', CHR ''*'', CHR ''?'', CHR 0x22,
                              CHR ''<'', CHR ''>'', CHR ''|'']"

definition strip_edges :: "string \<Rightarrow> string" where
  \<comment> \<open>\<open>s.replace(/^_|_$/g, "")\<close>: one underscore at the start and one at the end\<close>
  "strip_edges s =
     (let t = (case s of [] \<Rightarrow> [] | c # cs \<Rightarrow> if c = CHR ''_'' then cs else s)
      in if t \<noteq> [] \<and> last t = CHR ''_'' then butlast t else t)"

definition sanitizeFilename :: "string \<Rightarrow> string" where
  "sanitizeFilename name =
     take 200
       (strip_edges
         (replace_runs (\<lambda>c. c = CHR ''_'') ''_''
           (replace_runs is_space ''_''
             (map (\<lambda>c. if hostile c then CHR ''_'' else c) name))))"

fun doubled :: "char \<Rightarrow> string \<Rightarrow> bool" where
  \<comment> \<open>the character occurs twice in a row\<close>
  "doubled u (a # b # cs) = ((a = u \<and> b = u) \<or> doubled u (b # cs))"
| "doubled u cs = False"

definition plain :: "char \<Rightarrow> bool" where
  \<comment> \<open>a character that \<open>sanitizeFilename\<close> keeps as it is\<close>
  "plain c \<longleftrightarrow> \<not> hostile c \<and> \<not> is_space c \<and> c \<noteq> CHR ''_''"

section \<open>Dates and the host environment\<close>

text \<open>
  A \<open>Date\<close> object is its time value: \<open>Some t\<close> with \<open>t\<close> in milliseconds since the epoch, or
  \<open>None\<close> for an invalid date (time value \<open>NaN\<close>).  Comparing two dates compares the time
  values, and every comparison with \<open>NaN\<close> is false.
\<close>

type_synonym date = "int option"

definition date_lt :: "date \<Rightarrow> date \<Rightarrow> bool" where
  "date_lt a b = (case (a, b) of (Some x, Some y) \<Rightarrow> x < y | _ \<Rightarrow> False)"

definition date_le :: "date \<Rightarrow> date \<Rightarrow> bool" where
  "date_le a b = (case (a, b) of (Some x, Some y) \<Rightarrow> x \<le> y | _ \<Rightarrow> False)"

text \<open>
  What the program takes from its runtime (the \<open>Date\<close> built-in with its time zone and
  locale, and \<open>path.join\<close>) is a parameter of the model.
\<close>

record host =
  parseDate :: "string \<Rightarrow> date"
    \<comment> \<open>\<open>new Date(s)\<close>\<close>
  toDateString :: "date \<Rightarrow> string"
    \<comment> \<open>\<open>d.toDateString()\<close>: the local calendar day\<close>
  toLongDate :: "date \<Rightarrow> string"
    \<comment> \<open>\<open>d.toLocaleDateString(undefined, {weekday: "long", year: "numeric", month: "long", day: "numeric"})\<close>\<close>
  localDate :: "int \<Rightarrow> int \<Rightarrow> int \<Rightarrow> int \<Rightarrow> int \<Rightarrow> date"
    \<comment> \<open>\<open>new Date(year, monthIndex, day, hours, minutes)\<close>\<close>
  toGermanDate :: "date \<Rightarrow> string"
    \<comment> \<open>\<open>d.toLocaleDateString("de-DE", {year: "numeric", month: "long", day: "numeric"})\<close>\<close>
  pathJoin :: "string \<Rightarrow> string \<Rightarrow> string"
    \<comment> \<open>\<open>join(dir, name)\<close>\<close>

subsection \<open>A reference host: UTC as the local time zone, English as the default locale\<close>

definition days_from_civil :: "int \<Rightarrow> int \<Rightarrow> int \<Rightarrow> int" where
  \<comment> \<open>the day number (days since 1970-01-01) of a date of the proleptic Gregorian calendar\<close>
  "days_from_civil y m d =
     (let y1 = (if m \<le> 2 then y - 1 else y);
          era = y1 div 400;
          yoe = y1 - era * 400;
          doy = (153 * (if 2 < m then m - 3 else m + 9) + 2) div 5 + d - 1;
          doe = yoe * 365 + yoe div 4 - yoe div 100 + doy
      in era * 146097 + doe - 719468)"

definition civil_from_days :: "int \<Rightarrow> int \<times> int \<times> int" where
  \<comment> \<open>year, month (1 to 12) and day of a day number\<close>
  "civil_from_days z0 =
     (let z = z0 + 719468;
          era = z div 146097;
          doe = z - era * 146097;
          yoe = (doe - doe div 1460 + doe div 36524 - doe div 146096) div 365;
          doy = doe - (365 * yoe + yoe div 4 - yoe div 100);
          mp = (5 * doy + 2) div 153;
          d = doy - (153 * mp + 2) div 5 + 1;
          m = (if mp < 10 then mp + 3 else mp - 9);
          y = yoe + era * 400
      in (if m \<le> 2 then y + 1 else y, m, d))"

definition days_in_month :: "int \<Rightarrow> int \<Rightarrow> int" where
  "days_in_month y m =
     (if m = 2 then (if y mod 4 = 0 \<and> (y mod 100 \<noteq> 0 \<or> y mod 400 = 0) then 29 else 28)
      else if m \<in> {4, 6, 9, 11} then 30 else 31)"

definition utc_instant :: "string \<Rightarrow> string \<Rightarrow> string \<Rightarrow> string \<Rightarrow> string \<Rightarrow> string \<Rightarrow> string \<Rightarrow> date" where
  "utc_instant ys ms ds hs mins ss fs =
     (case (digits_val ys, digits_val ms, digits_val ds, digits_val hs, digits_val mins,
            digits_val ss, digits_val fs) of
        (Some y, Some m, Some d, Some h, Some mi, Some sec, Some f) \<Rightarrow>
          if 1 \<le> m \<and> m \<le> 12 \<and> 1 \<le> d \<and> d \<le> days_in_month y m \<and> h \<le> 23 \<and> mi \<le> 59 \<and> sec \<le> 59
          then Some (days_from_civil y m d * 86400000 + h * 3600000 + mi * 60000 + sec * 1000 + f)
          else None
      | _ \<Rightarrow> None)"

definition iso_parse :: "string \<Rightarrow> date" where
  \<comment> \<open>\<open>new Date(s)\<close> on the instants \<open>YYYY-MM-DDTHH:mmZ\<close>, \<open>YYYY-MM-DDTHH:mm:ssZ\<close> and
      \<open>YYYY-MM-DDTHH:mm:ss.sssZ\<close> of a real calendar day; every other string is taken as
      an invalid date\<close>
  "iso_parse s =
     (if length s \<in> {17, 20, 24} \<and> s ! 4 = CHR ''-'' \<and> s ! 7 = CHR ''-'' \<and> s ! 10 = CHR ''T''
         \<and> s ! 13 = CHR '':'' \<and> last s = CHR ''Z''
         \<and> (if 17 < length s then s ! 16 = CHR '':'' else True)
         \<and> (if 20 < length s then s ! 19 = CHR ''.'' else True)
      then utc_instant (take 4 s) (take 2 (drop 5 s)) (take 2 (drop 8 s)) (take 2 (drop 11 s))
             (take 2 (drop 14 s))
             (if 17 < length s then take 2 (drop 17 s) else ''00'')
             (if 20 < length s then take 3 (drop 20 s) else ''000'')
      else None)"

definition pad2 :: "int \<Rightarrow> string" where
  "pad2 n = (if n < 10 then CHR ''0'' # show_int n else show_int n)"

definition pad4 :: "int \<Rightarrow> string" where
  "pad4 n = replicate (4 - length (show_int n)) (CHR ''0'') @ show_int n"

definition utc_toDateString :: "date \<Rightarrow> string" where
  "utc_toDateString dt =
     (case dt of
        None \<Rightarrow> ''Invalid Date''
      | Some t \<Rightarrow>
          (let days = t div 86400000; (y, m, d) = civil_from_days days
           in [''Sun'', ''Mon'', ''Tue'', ''Wed'', ''Thu'', ''Fri'', ''Sat''] ! nat ((days + 4) mod 7) @ '' ''
              @ [''Jan'', ''Feb'', ''Mar'', ''Apr'', ''May'', ''Jun'', ''Jul'', ''Aug'', ''Sep'', ''Oct'',
                 ''Nov'', ''Dec''] ! nat (m - 1)
              @ '' '' @ pad2 d @ '' '' @ pad4 y))"

definition utc_toLongDate :: "date \<Rightarrow> string" where
  "utc_toLongDate dt =
     (case dt of
        None \<Rightarrow> ''Invalid Date''
      | Some t \<Rightarrow>
          (let days = t div 86400000; (y, m, d) = civil_from_days days
           in [''Sunday'', ''Monday'', ''Tuesday'', ''Wednesday'', ''Thursday'', ''Friday'', ''Saturday'']
                ! nat ((days + 4) mod 7) @ '', ''
              @ [''January'', ''February'', ''March'', ''April'', ''May'', ''June'', ''July'', ''August'',
                 ''September'', ''October'', ''November'', ''December''] ! nat (m - 1)
              @ '' '' @ show_int d @ '', '' @ show_int y))"

definition utc_toGermanDate :: "date \<Rightarrow> string" where
  "utc_toGermanDate dt =
     (case dt of
        None \<Rightarrow> ''Invalid Date''
      | Some t \<Rightarrow>
          (let (y, m, d) = civil_from_days (t div 86400000)
           in show_int d @ ''. ''
              @ [''Januar'', ''Februar'', [CHR ''M'', CHR 0xE4, CHR ''r'', CHR ''z''], ''April'', ''Mai'',
                 ''Juni'', ''Juli'', ''August'', ''September'', ''Oktober'', ''November'', ''Dezember'']
                ! nat (m - 1)
              @ '' '' @ show_int y))"

definition utc_localDate :: "int \<Rightarrow> int \<Rightarrow> int \<Rightarrow> int \<Rightarrow> int \<Rightarrow> date" where
  \<comment> \<open>\<open>new Date(year, monthIndex, day, hours, minutes)\<close>: a year from 0 to 99 is in the
      twentieth century, and a field out of its range carries over\<close>
  "utc_localDate y mIdx d h mi =
     (let y1 = (if 0 \<le> y \<and> y \<le> 99 then 1900 + y else y)
      in Some ((days_from_civil (y1 + mIdx div 12) (mIdx mod 12 + 1) 1 + d - 1) * 86400000
               + h * 3600000 + mi * 60000))"

definition utc_host :: host where
  "utc_host =
     \<lparr> parseDate = iso_parse, toDateString = utc_toDateString, toLongDate = utc_toLongDate,
       localDate = utc_localDate, toGermanDate = utc_toGermanDate,
       pathJoin = (\<lambda>dir name. dir @ ''/'' @ name) \<rparr>"

section \<open>Rendering (src/lib/markdown.ts)\<close>

record ExtractedMessage =
  id_num :: "int option"
    \<comment> \<open>the field \<open>id\<close>, a number: \<open>None\<close> is \<open>NaN\<close>\<close>
  author :: string
  timestamp :: string
  contentHtml :: string

definition formatTimestamp :: "string \<Rightarrow> string" where
  "formatTimestamp iso_str = iso_str"

definition formatDate :: "host \<Rightarrow> string \<Rightarrow> string" where
  "formatDate H iso_str = toLongDate H (parseDate H iso_str)"

fun render_lines :: "host \<Rightarrow> string \<Rightarrow> string \<Rightarrow> ExtractedMessage list \<Rightarrow> string list" where
  \<comment> \<open>the loop of \<open>messagesToMarkdown\<close>: the lines pushed from the state
      \<open>lastAuthor\<close>, \<open>lastDateStr\<close> on\<close>
  "render_lines H lastAuthor lastDateStr [] = []"
| "render_lines H lastAuthor lastDateStr (msg # rest) =
     (let dateStr = toDateString H (parseDate H (timestamp msg));
          content = htmlToText (contentHtml msg);
          newDay = (dateStr \<noteq> lastDateStr);
          heading =
            (if newDay then
               (if lastDateStr \<noteq> [] then [[], ''---'', []] else [])
               @ [''## '' @ formatDate H (timestamp msg), []]
             else []);
          lastAuthor1 = (if newDay then [] else lastAuthor);
          label =
            (if author msg \<noteq> lastAuthor1
             then ''**'' @ author msg @ ''** ['' @ formatTimestamp (timestamp msg) @ '']:''
             else ''*['' @ formatTimestamp (timestamp msg) @ '']:*'')
      in heading @ [label] @ split_on (CHR 0x0A) content @ [[]]
         @ render_lines H (author msg) dateStr rest)"

definition messagesToMarkdown :: "host \<Rightarrow> ExtractedMessage list \<Rightarrow> string" where
  "messagesToMarkdown H messages =
     (if messages = [] then [] else join [CHR 0x0A] (render_lines H [] [] messages))"

text \<open>Names for the lines that \<open>messagesToMarkdown\<close> pushes.\<close>

definition day_of :: "host \<Rightarrow> ExtractedMessage \<Rightarrow> string" where
  \<comment> \<open>\<open>dateStr\<close>\<close>
  "day_of H msg = toDateString H (parseDate H (timestamp msg))"

definition heading_line :: "host \<Rightarrow> ExtractedMessage \<Rightarrow> string" where
  "heading_line H msg = ''## '' @ formatDate H (timestamp msg)"

definition author_line :: "ExtractedMessage \<Rightarrow> string" where
  "author_line msg = ''**'' @ author msg @ ''** ['' @ timestamp msg @ '']:''"

definition continuation_line :: "ExtractedMessage \<Rightarrow> string" where
  "continuation_line msg = ''*['' @ timestamp msg @ '']:*''"

definition content_lines :: "ExtractedMessage \<Rightarrow> string list" where
  "content_lines msg = split_on (CHR 0x0A) (htmlToText (contentHtml msg))"

definition count_lines :: "(string \<Rightarrow> bool) \<Rightarrow> string \<Rightarrow> nat" where
  \<comment> \<open>the number of lines of a text with a property\<close>
  "count_lines P text = length (filter P (split_on (CHR 0x0A) text))"

section \<open>The incremental store (src/lib/markdown.ts)\<close>

type_synonym files = "string \<rightharpoonup> string"

fun search :: "(string \<Rightarrow> 'a option) \<Rightarrow> string \<Rightarrow> 'a option" where
  \<comment> \<open>the leftmost match of an expression\<close>
  "search m [] = m []"
| "search m (c # cs) = (case m (c # cs) of Some v \<Rightarrow> Some v | None \<Rightarrow> search m cs)"

definition date_shape :: "string \<Rightarrow> bool" where
  \<comment> \<open>\<open>\d{4}-\d{2}-\d{2}T\<close>\<close>
  "date_shape s \<longleftrightarrow>
     (case s of
        [y1, y2, y3, y4, h1, m1, m2, h2, d1, d2, t] \<Rightarrow>
          is_digit y1 \<and> is_digit y2 \<and> is_digit y3 \<and> is_digit y4 \<and> h1 = CHR ''-''
          \<and> is_digit m1 \<and> is_digit m2 \<and> h2 = CHR ''-''
          \<and> is_digit d1 \<and> is_digit d2 \<and> t = CHR ''T''
      | _ \<Rightarrow> False)"

definition cursor_at :: "string \<Rightarrow> string option" where
  \<comment> \<open>\<open>/<!-- last-message: (\d{4}-\d{2}-\d{2}T[^\s]+) -->/\<close> at the start of the text: group 1\<close>
  "cursor_at s =
     (if prefix ''<!-- last-message: '' s then
        (let r = drop 19 s; tok = takeWhile (\<lambda>c. \<not> is_space c) (drop 11 r)
         in if date_shape (take 11 r) \<and> tok \<noteq> [] \<and> prefix '' -->'' (drop (11 + length tok) r)
            then Some (take 11 r @ tok) else None)
      else None)"

definition getLatestTimestamp :: "host \<Rightarrow> files \<Rightarrow> string \<Rightarrow> date option" where
  "getLatestTimestamp H fs filePath =
     (case fs filePath of
        None \<Rightarrow> None
      | Some content \<Rightarrow>
          (case search cursor_at content of
             Some g \<Rightarrow> Some (parseDate H g)
           | None \<Rightarrow> None))"

definition old_cursor_at :: "string \<Rightarrow> bool" where
  \<comment> \<open>\<open>/<!-- last-message: [^\s]+ -->\n?$/\<close> at the start of the text\<close>
  "old_cursor_at s \<longleftrightarrow>
     prefix ''<!-- last-message: '' s \<and>
     (let r = drop 19 s; tok = takeWhile (\<lambda>c. \<not> is_space c) r; e = drop (length tok) r
      in tok \<noteq> [] \<and> (e = '' -->'' \<or> e = '' -->'' @ [CHR 0x0A]))"

fun strip_cursor :: "string \<Rightarrow> string" where
  \<comment> \<open>\<open>existing.replace(/<!-- last-message: [^\s]+ -->\n?$/, "")\<close>\<close>
  "strip_cursor [] = []"
| "strip_cursor (c # cs) = (if old_cursor_at (c # cs) then [] else c # strip_cursor cs)"

definition saveChat ::
  "host \<Rightarrow> string \<Rightarrow> files \<Rightarrow> string \<Rightarrow> ExtractedMessage list \<Rightarrow> string \<Rightarrow> files \<times> nat" where
  \<comment> \<open>\<open>now\<close> is \<open>new Date().toISOString()\<close> at the call; the result is the files after the
      call and the number returned\<close>
  "saveChat H now fs chatName messages outputDir =
     (let filename = sanitizeFilename chatName @ ''.md'';
          filePath = pathJoin H outputDir filename;
          lastTimestamp = getLatestTimestamp H fs filePath;
          newMessages =
            (case lastTimestamp of
               None \<Rightarrow> messages
             | Some c \<Rightarrow> filter (\<lambda>m. date_lt c (parseDate H (timestamp m))) messages)
      in if newMessages = [] then (fs, 0)
         else
           (let markdown = messagesToMarkdown H newMessages;
                lastMsg = last newMessages;
                metadata = ''<!-- last-message: '' @ timestamp lastMsg @ '' -->''
            in case (fs filePath, lastTimestamp) of
                 (Some existing, Some c) \<Rightarrow>
                   (let cleaned = strip_cursor existing;
                        appended =
                          trimEnd cleaned @ [CHR 0x0A, CHR 0x0A] @ ''---'' @ [CHR 0x0A, CHR 0x0A]
                          @ ''### Export appended: '' @ now @ [CHR 0x0A, CHR 0x0A]
                          @ markdown @ [CHR 0x0A] @ metadata @ [CHR 0x0A]
                    in (fs(filePath \<mapsto> appended), length newMessages))
               | _ \<Rightarrow>
                   (let header = ''# '' @ chatName @ [CHR 0x0A, CHR 0x0A] @ ''Exported: '' @ now
                                 @ [CHR 0x0A, CHR 0x0A];
                        content = header @ markdown @ [CHR 0x0A] @ metadata @ [CHR 0x0A]
                    in (fs(filePath \<mapsto> content), length newMessages))))"

text \<open>Names for the parts of \<open>saveChat\<close> that the properties below speak of.\<close>

definition file_path :: "host \<Rightarrow> string \<Rightarrow> string \<Rightarrow> string" where
  \<comment> \<open>\<open>filePath\<close>\<close>
  "file_path H outputDir chatName = pathJoin H outputDir (sanitizeFilename chatName @ ''.md'')"

definition cursor_marker :: "string \<Rightarrow> string" where
  \<comment> \<open>\<open>metadata\<close>\<close>
  "cursor_marker ts = ''<!-- last-message: '' @ ts @ '' -->''"

definition fresh_body :: "host \<Rightarrow> string \<Rightarrow> string \<Rightarrow> ExtractedMessage list \<Rightarrow> string" where
  \<comment> \<open>the fresh export up to its cursor marker: \<open>header + markdown + "\n"\<close>\<close>
  "fresh_body H now chatName newMessages =
     ''# '' @ chatName @ [CHR 0x0A, CHR 0x0A] @ ''Exported: '' @ now @ [CHR 0x0A, CHR 0x0A]
     @ messagesToMarkdown H newMessages @ [CHR 0x0A]"

definition fresh_document :: "host \<Rightarrow> string \<Rightarrow> string \<Rightarrow> ExtractedMessage list \<Rightarrow> string" where
  \<comment> \<open>\<open>content\<close> of the fresh export\<close>
  "fresh_document H now chatName newMessages =
     fresh_body H now chatName newMessages
     @ cursor_marker (timestamp (last newMessages)) @ [CHR 0x0A]"

definition appended_body :: "host \<Rightarrow> string \<Rightarrow> string \<Rightarrow> ExtractedMessage list \<Rightarrow> string" where
  \<comment> \<open>\<open>appended\<close> up to its cursor marker\<close>
  "appended_body H now existing newMessages =
     trimEnd (strip_cursor existing) @ [CHR 0x0A, CHR 0x0A] @ ''---'' @ [CHR 0x0A, CHR 0x0A]
     @ ''### Export appended: '' @ now @ [CHR 0x0A, CHR 0x0A]
     @ messagesToMarkdown H newMessages @ [CHR 0x0A]"

definition appended_document :: "host \<Rightarrow> string \<Rightarrow> string \<Rightarrow> ExtractedMessage list \<Rightarrow> string" where
  \<comment> \<open>\<open>appended\<close>\<close>
  "appended_document H now existing newMessages =
     appended_body H now existing newMessages
     @ cursor_marker (timestamp (last newMessages)) @ [CHR 0x0A]"







section \<open>The extraction controller (src/lib/extract.ts)\<close>

text \<open>
  The scripts run against the page of the host application.  A collected node is what the
  selectors of the scripts find in it; the page is what the scripts observe of it, cycle
  after cycle.  Message ids are exact integers (as the numbers of the scripts are below
  \<open>2\<^sup>5\<^sup>3\<close>).
\<close>

record raw_node =
  body_id :: "string option"
    \<comment> \<open>the \<open>id\<close> of the element \<open>[id^="message-body-"]\<close>, when there is one\<close>
  animated_gif :: bool
    \<comment> \<open>there is an element \<open>[aria-label="Animated GIF"]\<close>\<close>
  author_text :: "string option"
    \<comment> \<open>the \<open>innerText\<close> of \<open>[data-tid="message-author-name"]\<close>\<close>
  datetime :: "string option"
    \<comment> \<open>the attribute \<open>datetime\<close> of \<open>[id^="timestamp-"]\<close>\<close>
  body_text :: "string option"
    \<comment> \<open>the \<open>innerText\<close> of \<open>[id^="message-body-"] [id^="content-"]\<close>\<close>

record ExtractionResult =
  messages :: "ExtractedMessage list"
  error :: "string option"

record down_obs =
  after_step :: "raw_node list"
    \<comment> \<open>collected during the step, up to the \<open>collect()\<close> after the wait\<close>
  after_jump :: "raw_node list"
    \<comment> \<open>collected during the bigger jump, when the step makes it\<close>
  at_bottom :: bool
    \<comment> \<open>\<open>scrollTop + clientHeight >= scrollHeight - 10\<close> at the end of the step\<close>
  after_bottom :: "raw_node list"
    \<comment> \<open>collected during the wait at the bottom\<close>

record page =
  chat_pane :: bool
    \<comment> \<open>\<open>document.getElementById('chat-pane-list')\<close> is there\<close>
  scrollable :: bool
    \<comment> \<open>\<open>findScrollContainer(list)\<close> finds a container\<close>
  children0 :: "raw_node list"
    \<comment> \<open>the children of the list at the first \<open>collect()\<close>\<close>
  children1 :: "raw_node list"
    \<comment> \<open>the children after the scroll to the bottom\<close>
  view :: "nat \<Rightarrow> raw_node list"
    \<comment> \<open>scrolling up: what cycle \<open>k\<close> (from 1) adds to \<open>collected\<close>\<close>
  down_view :: "nat \<Rightarrow> down_obs"
    \<comment> \<open>scrolling down: what step \<open>k\<close> (from 0) shows\<close>

fun oldest_loop :: "host \<Rightarrow> date option \<Rightarrow> raw_node list \<Rightarrow> date option" where
  "oldest_loop H oldest [] = oldest"
| "oldest_loop H oldest (n # ns) =
     (case datetime n of
        None \<Rightarrow> oldest_loop H oldest ns
      | Some a \<Rightarrow>
          (let dt = parseDate H a
           in oldest_loop H
                (case oldest of None \<Rightarrow> Some dt | Some od \<Rightarrow> if date_lt dt od then Some dt else oldest)
                ns))"

definition getOldestTimestamp :: "host \<Rightarrow> raw_node list \<Rightarrow> date option" where
  \<comment> \<open>\<open>None\<close> is \<open>null\<close>\<close>
  "getOldestTimestamp H nodes = oldest_loop H None nodes"

definition cutoff_hit :: "host \<Rightarrow> date option \<Rightarrow> raw_node list \<Rightarrow> bool" where
  \<comment> \<open>\<open>effectiveCutoff\<close> is set, and \<open>oldest && oldest <= effectiveCutoff\<close>\<close>
  "cutoff_hit H effectiveCutoff collected =
     (case effectiveCutoff of
        None \<Rightarrow> False
      | Some c \<Rightarrow> (case getOldestTimestamp H collected of None \<Rightarrow> False | Some od \<Rightarrow> date_le od c))"

definition changed :: "date option \<Rightarrow> date option \<Rightarrow> bool" where
  \<comment> \<open>\<open>!prevOldest || !currentOldest || currentOldest.getTime() !== prevOldest.getTime()\<close>\<close>
  "changed prevOldest currentOldest =
     (case (prevOldest, currentOldest) of
        (Some (Some p), Some (Some c)) \<Rightarrow> c \<noteq> p
      | _ \<Rightarrow> True)"

partial_function (option) scroll_up ::
  "host \<Rightarrow> date option \<Rightarrow> (nat \<Rightarrow> raw_node list) \<Rightarrow> raw_node list \<Rightarrow> nat \<Rightarrow> date option \<Rightarrow> nat
   \<Rightarrow> (raw_node list \<times> nat) option" where
  \<comment> \<open>the loop \<open>while (true)\<close> of \<open>getExtractionScript\<close>: \<open>collected\<close> and \<open>scrollIter\<close> at
      the \<open>break\<close>; \<open>None\<close> when the loop never leaves\<close>
  "scroll_up H effectiveCutoff vw collected noChangeCount prevOldest scrollIter =
     (let scrollIter1 = scrollIter + 1;
          collected1 = collected @ vw scrollIter1
      in if cutoff_hit H effectiveCutoff collected1 then Some (collected1, scrollIter1)
         else
           (let currentOldest = getOldestTimestamp H collected1
            in if \<not> changed prevOldest currentOldest then
                 (if 3 \<le> noChangeCount + 1 then Some (collected1, scrollIter1)
                  else scroll_up H effectiveCutoff vw collected1 (noChangeCount + 1) currentOldest
                         scrollIter1)
               else scroll_up H effectiveCutoff vw collected1 0 currentOldest scrollIter1))"

declare scroll_up.simps [code]

definition seen :: "(nat \<Rightarrow> raw_node list) \<Rightarrow> raw_node list \<Rightarrow> nat \<Rightarrow> raw_node list" where
  \<comment> \<open>\<open>collected\<close> after \<open>k\<close> cycles of the loop, from \<open>c0\<close> before it\<close>
  "seen vw c0 k = c0 @ concat (map vw [1..<Suc k])"

definition message_key :: "string \<Rightarrow> int option" where
  \<comment> \<open>\<open>parseInt(msg.id.replace('message-body-', ''), 10)\<close>; \<open>None\<close> is \<open>NaN\<close>\<close>
  "message_key bid = parseInt (replace_first ''message-body-'' [] bid)"

fun unique_loop :: "int option list \<Rightarrow> raw_node list \<Rightarrow> int option list" where
  \<comment> \<open>the keys of \<open>tempMap\<close>\<close>
  "unique_loop keys [] = keys"
| "unique_loop keys (n # ns) =
     (case body_id n of
        None \<Rightarrow> unique_loop keys ns
      | Some bid \<Rightarrow>
          unique_loop (if message_key bid \<in> set keys then keys else keys @ [message_key bid]) ns)"

function scroll_down ::
  "(nat \<Rightarrow> down_obs) \<Rightarrow> nat \<Rightarrow> raw_node list \<Rightarrow> nat \<Rightarrow> nat \<Rightarrow> raw_node list \<times> nat" where
  \<comment> \<open>the loop \<open>for (var step = 0; step < 5000; step++)\<close> of
      \<open>getScrollDownExtractionScript\<close>: \<open>collected\<close> at the end, and the number of cycles begun\<close>
  "scroll_down vw step collected noChangeCount prevCount =
     (if step < 5000 then
        (let collected1 = collected @ after_step (vw step);
             currentCount = length (unique_loop [] collected1);
             stalled = (currentCount = prevCount);
             n1 = (if stalled then noChangeCount + 1 else 0);
             collected2 = (if stalled \<and> n1 = 4 then collected1 @ after_jump (vw step) else collected1)
         in if stalled \<and> 8 \<le> n1 then (collected2, Suc step)
            else if at_bottom (vw step) then
              (let collected3 = collected2 @ after_bottom (vw step); n2 = n1 + 1
               in if 5 \<le> n2 then (collected3, Suc step)
                  else scroll_down vw (Suc step) collected3 n2 currentCount)
            else scroll_down vw (Suc step) collected2 n1 currentCount)
      else (collected, step))"
  by pat_completeness auto
termination
  by (relation "measure (\<lambda>(vw, step, collected, n, p). 5000 - step)") auto

fun dedup_loop :: "(int option \<times> raw_node) list \<Rightarrow> raw_node list \<Rightarrow> (int option \<times> raw_node) list" where
  \<comment> \<open>\<open>collected.forEach(...)\<close> on the \<open>Map\<close>, whose entries are in the order of insertion\<close>
  "dedup_loop entries [] = entries"
| "dedup_loop entries (n # ns) =
     (case body_id n of
        None \<Rightarrow> dedup_loop entries ns
      | Some bid \<Rightarrow>
          if animated_gif n then dedup_loop entries ns
          else if message_key bid \<in> fst ` set entries then dedup_loop entries ns
          else dedup_loop (entries @ [(message_key bid, n)]) ns)"

definition id_cmp :: "int option \<times> 'a \<Rightarrow> int option \<times> 'a \<Rightarrow> int" where
  \<comment> \<open>\<open>function(a, b) { return a[0] - b[0]; }\<close>; a result \<open>NaN\<close> counts as 0\<close>
  "id_cmp a b = (case (fst a, fst b) of (Some x, Some y) \<Rightarrow> x - y | _ \<Rightarrow> 0)"

definition sequence_entries :: "raw_node list \<Rightarrow> (int option \<times> raw_node) list" where
  \<comment> \<open>\<open>entries\<close> after the sort\<close>
  "sequence_entries collected = js_sort id_cmp (dedup_loop [] collected)"

definition sequence_nodes :: "raw_node list \<Rightarrow> raw_node list" where
  \<comment> \<open>\<open>nodes\<close>: deduplicated by message id, without the animated images, in the order of the ids\<close>
  "sequence_nodes collected = map snd (sequence_entries collected)"



definition trim_to_range :: "host \<Rightarrow> date option \<Rightarrow> raw_node list \<Rightarrow> raw_node list" where
  "trim_to_range H cutoffDate nodes =
     (case cutoffDate of
        None \<Rightarrow> nodes
      | Some c \<Rightarrow>
          filter (\<lambda>n. case datetime n of None \<Rightarrow> True | Some a \<Rightarrow> date_le c (parseDate H a)) nodes)"

fun extract_loop :: "raw_node list \<Rightarrow> ExtractedMessage list" where
  \<comment> \<open>the loop that fills \<open>messages\<close>; a node without author, timestamp or content element
      is passed over\<close>
  "extract_loop [] = []"
| "extract_loop (n # ns) =
     (case (author_text n, datetime n, body_text n) of
        (Some a, Some t, Some b) \<Rightarrow>
          \<lparr> id_num = (case body_id n of None \<Rightarrow> Some 0 | Some bid \<Rightarrow> message_key bid),
            author = trim a, timestamp = t, contentHtml = b \<rparr>
          # extract_loop ns
      | _ \<Rightarrow> extract_loop ns)"

definition extract_result :: "raw_node list \<Rightarrow> ExtractionResult" where
  \<comment> \<open>the end of both scripts, from the test of \<open>nodes.length\<close> on\<close>
  "extract_result nodes =
     (if nodes = [] then \<lparr> messages = [], error = Some ''No messages could be extracted.'' \<rparr>
      else \<lparr> messages = extract_loop nodes, error = None \<rparr>)"

definition no_pane :: ExtractionResult where
  "no_pane =
     \<lparr> messages = [], error = Some ''No chat pane found. Make sure a chat is open in Teams.'' \<rparr>"

definition cutoff_date :: "int \<Rightarrow> int \<Rightarrow> date option" where
  \<comment> \<open>\<open>cutoffDate = days > 0 ? new Date(Date.now() - days * 86400000) : null\<close>\<close>
  "cutoff_date now days = (if 0 < days then Some (Some (now - days * 86400000)) else None)"

definition since_date :: "host \<Rightarrow> string option \<Rightarrow> date option" where
  \<comment> \<open>\<open>sinceDate\<close>: \<open>new Date("...")\<close> when \<open>sinceTimestamp\<close> is given and not empty\<close>
  "since_date H sinceTimestamp =
     (case sinceTimestamp of
        None \<Rightarrow> None
      | Some ts \<Rightarrow> if ts = [] then None else Some (parseDate H ts))"

definition effective_cutoff :: "host \<Rightarrow> int \<Rightarrow> int \<Rightarrow> string option \<Rightarrow> date option" where
  \<comment> \<open>\<open>cutoffDate || sinceDate\<close>\<close>
  "effective_cutoff H now days sinceTimestamp =
     (case cutoff_date now days of Some c \<Rightarrow> Some c | None \<Rightarrow> since_date H sinceTimestamp)"

definition up_collected :: "host \<Rightarrow> int \<Rightarrow> int \<Rightarrow> string option \<Rightarrow> page \<Rightarrow> raw_node list option" where
  \<comment> \<open>\<open>collected\<close> when the scroll phase of \<open>getExtractionScript\<close> is over; \<open>None\<close> when it
      never is\<close>
  "up_collected H now days sinceTimestamp pg =
     (if 0 \<le> days \<and> scrollable pg
      then map_option fst
             (scroll_up H (effective_cutoff H now days sinceTimestamp) (view pg)
                (children0 pg @ children1 pg) 0 None 0)
      else Some (children0 pg))"

definition up_nodes :: "host \<Rightarrow> int \<Rightarrow> int \<Rightarrow> string option \<Rightarrow> page \<Rightarrow> raw_node list option" where
  \<comment> \<open>\<open>nodes\<close> at the test of \<open>nodes.length\<close>: deduplicated, sorted, trimmed to the date range\<close>
  "up_nodes H now days sinceTimestamp pg =
     map_option (\<lambda>collected. trim_to_range H (cutoff_date now days) (sequence_nodes collected))
       (up_collected H now days sinceTimestamp pg)"

definition getExtractionScript ::
  "host \<Rightarrow> int \<Rightarrow> int \<Rightarrow> string option \<Rightarrow> page \<Rightarrow> ExtractionResult option" where
  \<comment> \<open>the script of \<open>getExtractionScript(days, sinceTimestamp)\<close> run on a page, \<open>now\<close> being
      \<open>Date.now()\<close>; \<open>None\<close> when the script never returns\<close>
  "getExtractionScript H now days sinceTimestamp pg =
     (if \<not> chat_pane pg then Some no_pane
      else map_option extract_result (up_nodes H now days sinceTimestamp pg))"

definition down_collected :: "page \<Rightarrow> raw_node list" where
  "down_collected pg =
     (if scrollable pg then fst (scroll_down (down_view pg) 0 (children0 pg) 0 0)
      else children0 pg)"

definition down_nodes :: "page \<Rightarrow> raw_node list" where
  "down_nodes pg = sequence_nodes (down_collected pg)"

definition getScrollDownExtractionScript :: "page \<Rightarrow> ExtractionResult" where
  "getScrollDownExtractionScript pg =
     (if \<not> chat_pane pg then no_pane else extract_result (down_nodes pg))"

definition well_formed :: "raw_node \<Rightarrow> bool" where
  \<comment> \<open>the node passes the test \<open>!authorEl || !timeEl || !bodyEl\<close> of the loop\<close>
  "well_formed n \<longleftrightarrow> author_text n \<noteq> None \<and> datetime n \<noteq> None \<and> body_text n \<noteq> None"

definition message_of :: "raw_node \<Rightarrow> ExtractedMessage" where
  \<comment> \<open>the message pushed for a node that passes the test\<close>
  "message_of n =
     \<lparr> id_num = (case body_id n of None \<Rightarrow> Some 0 | Some bid \<Rightarrow> message_key bid),
       author = trim (the (author_text n)), timestamp = the (datetime n),
       contentHtml = the (body_text n) \<rparr>"

section \<open>The visibility and retention analyzer (src/lib/retention.ts)\<close>

definition german_at :: "string \<Rightarrow> (string \<times> string \<times> string \<times> string \<times> string) option" where
  \<comment> \<open>\<open>/(\d{2})\.(\d{2})\.(\d{4}),\s*(\d{2}):(\d{2})/\<close> at the start of the text: the five groups\<close>
  "german_at s =
     (let dd = take 2 s; mm = take 2 (drop 3 s); yyyy = take 4 (drop 6 s);
          r = dropWhile is_space (drop 11 s);
          hh = take 2 r; mi = take 2 (drop 3 r)
      in if length dd = 2 \<and> list_all is_digit dd \<and> take 1 (drop 2 s) = ''.''
            \<and> length mm = 2 \<and> list_all is_digit mm \<and> take 1 (drop 5 s) = ''.''
            \<and> length yyyy = 4 \<and> list_all is_digit yyyy \<and> take 1 (drop 10 s) = '',''
            \<and> length hh = 2 \<and> list_all is_digit hh \<and> take 1 (drop 2 r) = '':''
            \<and> length mi = 2 \<and> list_all is_digit mi
         then Some (dd, mm, yyyy, hh, mi) else None)"

definition parseGermanDate :: "host \<Rightarrow> string \<Rightarrow> date option" where
  \<comment> \<open>\<open>None\<close> is \<open>null\<close>\<close>
  "parseGermanDate H dateStr =
     (case search german_at dateStr of
        None \<Rightarrow> None
      | Some (day, month, year, hour, minute) \<Rightarrow>
          (case (parseInt year, parseInt month, parseInt day, parseInt hour, parseInt minute) of
             (Some y, Some m, Some d, Some h, Some mi) \<Rightarrow> Some (localDate H y (m - 1) d h mi)
           | _ \<Rightarrow> Some None))"

definition bracket_at :: "string \<Rightarrow> (string \<times> string) option" where
  \<comment> \<open>\<open>/\[(\d{2}\.\d{2}\.\d{4},\s*\d{2}:\d{2})\]/\<close> at the start of the text: group 1 and the text
      after the match\<close>
  "bracket_at s =
     (case s of
        [] \<Rightarrow> None
      | c # r \<Rightarrow>
          if c \<noteq> CHR ''['' then None
          else (case german_at r of
                  None \<Rightarrow> None
                | Some g \<Rightarrow>
                    (let w = takeWhile is_space (drop 11 r); n = 11 + length w + 5
                     in if take 1 (drop n r) = '']'' then Some (take n r, drop (Suc n) r) else None)))"

function all_matches :: "string \<Rightarrow> string list" where
  \<comment> \<open>the group 1 of every match that the loop over \<open>timestampRegex.exec(content)\<close> sees\<close>
  "all_matches [] = []"
| "all_matches (c # cs) =
     (case bracket_at (c # cs) of
        None \<Rightarrow> all_matches cs
      | Some (g, rest) \<Rightarrow> if length rest \<le> length cs then g # all_matches rest else all_matches cs)"
  by pat_completeness auto
termination
  by (relation "measure length") auto

fun range_loop :: "host \<Rightarrow> int option \<Rightarrow> int option \<Rightarrow> nat \<Rightarrow> string list \<Rightarrow> int option \<times> int option \<times> nat" where
  \<comment> \<open>the body of the \<open>while\<close> loop of \<open>extractDateRange\<close>, over the matches.  Only valid
      dates pass the \<open>isNaN\<close> test, so \<open>oldest\<close> and \<open>newest\<close> are \<open>null\<close> (\<open>None\<close>) or a
      time value.\<close>
  "range_loop H oldest newest count [] = (oldest, newest, count)"
| "range_loop H oldest newest count (g # gs) =
     (case parseGermanDate H g of
        None \<Rightarrow> range_loop H oldest newest count gs
      | Some None \<Rightarrow> range_loop H oldest newest count gs
      | Some (Some t) \<Rightarrow>
          (let oldest1 = (case oldest of None \<Rightarrow> Some t | Some od \<Rightarrow> if t < od then Some t else oldest);
               newest1 = (case newest of None \<Rightarrow> Some t | Some nw \<Rightarrow> if nw < t then Some t else newest)
           in range_loop H oldest1 newest1 (Suc count) gs))"

definition extractDateRange :: "host \<Rightarrow> string \<Rightarrow> (int \<times> int \<times> nat) option" where
  \<comment> \<open>on the content of the file; the result is \<open>{ oldest, newest, count }\<close> or \<open>null\<close>\<close>
  "extractDateRange H content =
     (case range_loop H None None 0 (all_matches content) of
        (Some od, Some nw, n) \<Rightarrow> if n = 0 then None else Some (od, nw, n)
      | _ \<Rightarrow> None)"




record ChatDateRange =
  name :: string
  oldest :: int
  newest :: int
  ageDays :: int
  messageCount :: nat








section \<open>Example data\<close>

definition iso_archive :: string where
  \<comment> \<open>the archive of the test "parses ISO 8601 timestamps from markdown" of the repository\<close>
  "iso_archive =
     ''# Alice\<newline>\<newline>Exported: 15.06.2025, 12:00\<newline>\<newline>''
     @ ''**Alice** [2025-06-15T10:30:00Z]:\<newline>Hello\<newline>\<newline>''
     @ ''**Alice** [2025-06-15T11:00:00Z]:\<newline>Hello\<newline>''"

definition legacy_archive :: string where
  \<comment> \<open>the archive of the test "parses legacy German date timestamps from old exports"\<close>
  "legacy_archive =
     ''# Legacy\<newline>\<newline>Exported: 15.06.2025, 12:00\<newline>\<newline>''
     @ ''**Alice** [15.06.2025, 10:30]:\<newline>Hello\<newline>\<newline>''
     @ ''**Alice** [15.06.2025, 11:00]:\<newline>Hello\<newline>''"

definition alice1 :: ExtractedMessage where
  "alice1 = \<lparr> id_num = Some 1, author = ''Alice'', timestamp = ''2025-06-15T10:30:00Z'',
              contentHtml = ''Hello'' \<rparr>"

definition alice2 :: ExtractedMessage where
  "alice2 = \<lparr> id_num = Some 2, author = ''Alice'', timestamp = ''2025-06-15T11:00:00Z'',
              contentHtml = ''Hello'' \<rparr>"


definition noon :: string where
  "noon = ''2025-06-17T12:00:00.000Z''"

definition quiet :: down_obs where
  "quiet = \<lparr> after_step = [], after_jump = [], at_bottom = False, after_bottom = [] \<rparr>"

definition still_page :: "raw_node list \<Rightarrow> page" where
  \<comment> \<open>a page with the chat list, that shows the same children whatever the script does\<close>
  "still_page ns =
     \<lparr> chat_pane = True, scrollable = False, children0 = ns, children1 = ns,
       view = (\<lambda>k. ns), down_view = (\<lambda>k. quiet \<lparr> after_step := ns \<rparr>) \<rparr>"

definition node :: "string \<Rightarrow> bool \<Rightarrow> string option \<Rightarrow> string option \<Rightarrow> string option \<Rightarrow> raw_node" where
  "node bid gif a t b =
     \<lparr> body_id = Some bid, animated_gif = gif, author_text = a, datetime = t, body_text = b \<rparr>"

definition unmarked :: string where
  \<comment> \<open>the file of the test "returns null for file without metadata comment"\<close>
  "unmarked = ''# Chat\<newline>Hello world\<newline>''"

definition malformed :: raw_node where
  \<comment> \<open>a message node without the element of the author\<close>
  "malformed = node ''message-body-1'' False None (Some ''2025-06-15T10:30:00Z'') (Some ''Hello'')"

definition complete :: raw_node where
  "complete = node ''message-body-2'' False (Some ''Alice'') (Some ''2025-06-15T11:00:00Z'') (Some ''Hello'')"


definition untimed :: raw_node where
  \<comment> \<open>a message node without the element of the timestamp\<close>
  "untimed = \<lparr> body_id = Some ''message-body-7'', animated_gif = False, author_text = Some ''Alice'',
               datetime = None, body_text = Some ''Hello'' \<rparr>"





definition june15 :: ExtractedMessage where
  "june15 = \<lparr> id_num = Some 1, author = ''Alice'', timestamp = ''2025-06-15T10:00Z'', contentHtml = ''Hello'' \<rparr>"
definition june16 :: ExtractedMessage where
  "june16 = \<lparr> id_num = Some 2, author = ''Alice'', timestamp = ''2025-06-16T10:00Z'', contentHtml = ''Hello'' \<rparr>"

definition evening :: string where
  "evening = ''2025-06-17T18:00:00.000Z''"




text \<open>A message with a timestamp in the legacy format, and one whose content quotes a marker.\<close>

definition legacy_stamped :: ExtractedMessage where
  "legacy_stamped = \<lparr> id_num = Some 1, author = ''Alice'', timestamp = ''15.06.2025, 10:30'',
                      contentHtml = ''Hello'' \<rparr>"

definition quoting :: ExtractedMessage where
  "quoting = \<lparr> id_num = Some 1, author = ''Alice'', timestamp = ''2025-06-15T10:30:00Z'',
               contentHtml = ''&lt;!-- last-message: 2000-01-01T00:00:00Z --&gt;'' \<rparr>"

section \<open>Properties of the file names\<close>

lemma set_replace_runs: "set (replace_runs P r s) \<subseteq> set r \<union> {c \<in> set s. \<not> P c}"
proof (induction P r s rule: replace_runs.induct)
  case (1 P r)
  then show ?case by simp
next
  case (2 P r c cs)
  have "set (dropWhile P cs) \<subseteq> set cs" by (simp add: set_dropWhileD subsetI)
  with 2 show ?case by (auto split: if_splits)
qed

lemma hd_replace_runs: "s \<noteq> [] \<Longrightarrow> \<not> P (hd s) \<Longrightarrow> replace_runs P r s \<noteq> [] \<and> hd (replace_runs P r s) = hd s"
  by (cases s) auto

lemma doubled_iff: "doubled u s \<longleftrightarrow> sublist [u, u] s"
  by (induction u s rule: doubled.induct) (auto simp: sublist_Cons_right)

lemma not_doubled_replace_runs: "\<not> doubled u (replace_runs (\<lambda>c. c = u) [u] s)"
proof (induction "length s" arbitrary: s rule: less_induct)
  case less
  show ?case
  proof (cases s)
    case Nil
    then show ?thesis by simp
  next
    case (Cons c cs)
    show ?thesis
    proof (cases "c = u")
      case True
      let ?d = "dropWhile (\<lambda>c. c = u) cs"
      have "length ?d < length s" using Cons by (simp add: length_dropWhile_le le_imp_less_Suc)
      then have ih: "\<not> doubled u (replace_runs (\<lambda>c. c = u) [u] ?d)" using less by blast
      have r: "replace_runs (\<lambda>c. c = u) [u] ?d = [] \<or> hd (replace_runs (\<lambda>c. c = u) [u] ?d) \<noteq> u"
      proof (cases ?d)
        case Nil
        then have "replace_runs (\<lambda>c. c = u) [u] ?d = []" by (simp only: replace_runs.simps)
        then show ?thesis by blast
      next
        case (Cons x xs)
        then have "x \<noteq> u" using hd_dropWhile[of "\<lambda>c. c = u" cs] by auto
        then have "hd (replace_runs (\<lambda>c. c = u) [u] (x # xs)) = x" by simp
        then show ?thesis using Cons \<open>x \<noteq> u\<close> by (simp only:) simp
      qed
      have "replace_runs (\<lambda>c. c = u) [u] s = u # replace_runs (\<lambda>c. c = u) [u] ?d"
        using True Cons by simp
      then show ?thesis using ih r
        by (cases "replace_runs (\<lambda>c. c = u) [u] ?d") auto
    next
      case False
      have ih: "\<not> doubled u (replace_runs (\<lambda>c. c = u) [u] cs)" using less Cons by simp
      show ?thesis using False ih Cons by (cases "replace_runs (\<lambda>c. c = u) [u] cs") auto
    qed
  qed
qed

lemma sublist_strip_edges: "sublist (strip_edges s) s"
proof -
  define t where "t = (case s of [] \<Rightarrow> [] | c # cs \<Rightarrow> if c = CHR ''_'' then cs else s)"
  have a: "sublist t s" unfolding t_def by (cases s) (auto simp: sublist_Cons_right)
  have "sublist (if t \<noteq> [] \<and> last t = CHR ''_'' then butlast t else t) t"
    by (simp add: sublist_butlast)
  then show ?thesis using a unfolding strip_edges_def Let_def t_def[symmetric]
    using sublist_order.order.trans by blast
qed

lemma not_doubled_strip: "\<not> doubled u s \<Longrightarrow> \<not> doubled u (strip_edges s)"
  unfolding doubled_iff using sublist_order.order.trans[OF _ sublist_strip_edges] by blast

lemma not_doubled_take: "\<not> doubled u s \<Longrightarrow> \<not> doubled u (take n s)"
  unfolding doubled_iff using sublist_order.order.trans[OF _ sublist_take] by blast

lemma replace_runs_id: "list_all (\<lambda>c. \<not> P c) s \<Longrightarrow> replace_runs P r s = s"
  by (induction s) auto

lemma plain_sanitize:
  assumes "list_all plain s"
  shows "sanitizeFilename s = take 200 s"
proof -
  have a: "map (\<lambda>c. if hostile c then CHR ''_'' else c) s = s"
    using assms by (induction s) (auto simp: plain_def)
  have b: "replace_runs is_space ''_'' s = s"
    using assms by (intro replace_runs_id) (simp add: list_all_iff plain_def)
  have c: "replace_runs (\<lambda>c. c = CHR ''_'') ''_'' s = s"
    using assms by (intro replace_runs_id) (simp add: list_all_iff plain_def)
  have d: "strip_edges s = s"
  proof (cases s)
    case Nil then show ?thesis by (simp add: strip_edges_def)
  next
    case (Cons x xs)
    then have "x \<noteq> CHR ''_''" "last s \<noteq> CHR ''_''"
      using assms by (auto simp: list_all_iff plain_def)
    then show ?thesis using Cons by (simp add: strip_edges_def)
  qed
  show ?thesis by (simp add: sanitizeFilename_def a b c d)
qed

lemma underscore_kept: "\<not> hostile (CHR ''_'')" "\<not> is_space (CHR ''_'')"
    by (simp_all add: hostile_def is_space_def)

lemma hostile_replaced: "\<forall>c \<in> set (map (\<lambda>c. if hostile c then CHR ''_'' else c) s). \<not> hostile c"
  by (auto simp: underscore_kept)

lemma set_replace_runs_P:
  assumes "\<forall>c \<in> set r. Q c" "\<forall>c \<in> set s. Q c"
  shows "\<forall>c \<in> set (replace_runs P r s). Q c"
  using set_replace_runs[of P r s] assms by blast

lemma set_replace_runs_notP:
  assumes "\<forall>c \<in> set r. \<not> P c"
  shows "\<forall>c \<in> set (replace_runs P r s). \<not> P c"
  using set_replace_runs[of P r s] assms by blast


lemma sanitize_chars: "list_all (\<lambda>c. \<not> hostile c \<and> \<not> is_space c) (sanitizeFilename s)"
proof -
  let ?a = "map (\<lambda>c. if hostile c then CHR ''_'' else c) s"
  let ?b = "replace_runs is_space ''_'' ?a"
  let ?c = "replace_runs (\<lambda>c. c = CHR ''_'') ''_'' ?b"
  have b1: "\<forall>c \<in> set ?b. \<not> hostile c"
    by (rule set_replace_runs_P) (simp add: underscore_kept, rule hostile_replaced)
  have b2: "\<forall>c \<in> set ?b. \<not> is_space c"
    by (rule set_replace_runs_notP) (simp add: underscore_kept)
  have c1: "\<forall>c \<in> set ?c. \<not> hostile c"
    by (rule set_replace_runs_P) (simp add: underscore_kept, rule b1)
  have c2: "\<forall>c \<in> set ?c. \<not> is_space c"
    by (rule set_replace_runs_P) (simp add: underscore_kept, rule b2)
  have "set (take 200 (strip_edges ?c)) \<subseteq> set (strip_edges ?c)"
    by (rule set_take_subset)
  moreover have "set (strip_edges ?c) \<subseteq> set ?c"
    by (rule set_mono_sublist[OF sublist_strip_edges])
  ultimately have "set (sanitizeFilename s) \<subseteq> set ?c"
    unfolding sanitizeFilename_def by (rule subset_trans)
  then show ?thesis using c1 c2 unfolding list_all_iff by blast
qed

lemma sanitize_not_doubled: "\<not> doubled (CHR ''_'') (sanitizeFilename s)"
  unfolding sanitizeFilename_def
  by (intro not_doubled_take not_doubled_strip) (rule not_doubled_replace_runs)

lemma strip_edges_ends:
  assumes "\<not> doubled (CHR ''_'') s"
  shows "take 1 (strip_edges s) \<noteq> ''_'' \<and> take 1 (rev (strip_edges s)) \<noteq> ''_''"
proof -
  define t where "t = (case s of [] \<Rightarrow> [] | c # cs \<Rightarrow> if c = CHR ''_'' then cs else s)"
  have t1: "take 1 t \<noteq> ''_''"
    using assms unfolding t_def by (cases s; cases "tl s") (auto split: if_splits)
  have nd: "\<not> doubled (CHR ''_'') t"
  proof -
    have "sublist t s" unfolding t_def by (cases s) (auto simp: sublist_Cons_right)
    then show ?thesis using assms unfolding doubled_iff
      using sublist_order.order.trans by blast
  qed
  have se: "strip_edges s = (if t \<noteq> [] \<and> last t = CHR ''_'' then butlast t else t)"
    unfolding strip_edges_def t_def Let_def by simp
  show ?thesis
  proof (cases "t \<noteq> [] \<and> last t = CHR ''_''")
    case False
    then have "take 1 (rev t) \<noteq> ''_''" by (cases t rule: rev_cases) auto
    moreover have "strip_edges s = t" using False se by presburger
    ultimately show ?thesis using t1 by simp
  next
    case True
    then obtain b where t: "t = b @ ''_''" by (cases t rule: rev_cases) auto
    have b1: "take 1 b \<noteq> ''_''" using t1 t by (cases b) auto
    have "take 1 (rev b) \<noteq> ''_''"
    proof
      assume "take 1 (rev b) = ''_''"
      then obtain b' where "b = b' @ ''_''" by (cases b rule: rev_cases) auto
      then have "sublist ''__'' t" using t by (auto simp: sublist_def)
      then show False using nd unfolding doubled_iff by simp
    qed
    moreover have "strip_edges s = b" using True se t by simp
    ultimately show ?thesis using b1 by simp
  qed
qed

text \<open>
  C9.  \<open>sanitizeFilename\<close> replaces the characters \<open>/ \ : * ? " < > |\<close> by an underscore,
  collapses every run of white space and underscores to one underscore, removes an
  underscore at the start and at the end, and keeps at most 200 characters: the three
  examples of the specification hold (the input of 300 characters is 300 times \<open>a\<close>, as
  in the test suite of the repository); for every input the result has at most 200
  characters, none of them hostile or white space, no two underscores in a row and no
  underscore at the start, and none at the end unless the cap at 200 cut the name there;
  an input of at least 200 characters that needs no replacement gives exactly 200.
\<close>

theorem sanitizeFilename_spec:
  "sanitizeFilename (''foo/bar'' @ [CHR 0x5C] @ ''baz:qux*'' @ [CHR 0x22] @ ''<>|'') = ''foo_bar_baz_qux''
   \<and> sanitizeFilename ''_hello_'' = ''hello''
   \<and> length (sanitizeFilename (replicate 300 (CHR ''a''))) = 200
   \<and> length (sanitizeFilename s) \<le> 200
   \<and> list_all (\<lambda>c. \<not> hostile c \<and> \<not> is_space c) (sanitizeFilename s)
   \<and> \<not> doubled (CHR ''_'') (sanitizeFilename s)
   \<and> take 1 (sanitizeFilename s) \<noteq> ''_''
   \<and> (length (sanitizeFilename s) < 200 \<longrightarrow> take 1 (rev (sanitizeFilename s)) \<noteq> ''_'')
   \<and> (list_all plain s \<and> 200 \<le> length s \<longrightarrow> length (sanitizeFilename s) = 200)"
proof -
  let ?c = "replace_runs (\<lambda>c. c = CHR ''_'') ''_''
              (replace_runs is_space ''_'' (map (\<lambda>c. if hostile c then CHR ''_'' else c) s))"
  have e1: "sanitizeFilename (''foo/bar'' @ [CHR 0x5C] @ ''baz:qux*'' @ [CHR 0x22] @ ''<>|'') = ''foo_bar_baz_qux''"
    by (simp add: sanitizeFilename_def hostile_def is_space_def strip_edges_def)
  have e2: "sanitizeFilename ''_hello_'' = ''hello''"
    by (simp add: sanitizeFilename_def hostile_def is_space_def strip_edges_def)
  have e3: "length (sanitizeFilename (replicate 300 (CHR ''a''))) = 200"
    by (subst plain_sanitize) (simp_all add: list_all_iff plain_def hostile_def is_space_def)
  have len: "length (sanitizeFilename s) \<le> 200" by (simp add: sanitizeFilename_def)
  have ends: "take 1 (strip_edges ?c) \<noteq> ''_'' \<and> take 1 (rev (strip_edges ?c)) \<noteq> ''_''"
    by (rule strip_edges_ends) (rule not_doubled_replace_runs)
  have san: "sanitizeFilename s = take 200 (strip_edges ?c)" by (simp add: sanitizeFilename_def)
  have first: "take 1 (sanitizeFilename s) \<noteq> ''_''"
    using ends unfolding san by (cases "strip_edges ?c") auto
  have lst: "length (sanitizeFilename s) < 200 \<longrightarrow> take 1 (rev (sanitizeFilename s)) \<noteq> ''_''"
  proof
    assume "length (sanitizeFilename s) < 200"
    then have "sanitizeFilename s = strip_edges ?c" unfolding san by (simp add: min_def split: if_splits)
    then show "take 1 (rev (sanitizeFilename s)) \<noteq> ''_''" using ends by simp
  qed
  have pl: "list_all plain s \<and> 200 \<le> length s \<longrightarrow> length (sanitizeFilename s) = 200"
    by (auto simp: plain_sanitize)
  show ?thesis
    by (intro conjI e1 e2 e3 len sanitize_chars sanitize_not_doubled first lst pl)
qed

theorem sanitizeFilename_spec_witness:
  "sanitizeFilename ''hello   world__test'' = ''hello_world_test''
   \<and> length (sanitizeFilename ''hello   world__test'') \<le> 200
   \<and> list_all (\<lambda>c. \<not> hostile c \<and> \<not> is_space c) (sanitizeFilename ''hello   world__test'')
   \<and> \<not> doubled (CHR ''_'') (sanitizeFilename ''hello   world__test'')
   \<and> length (sanitizeFilename ''hello   world__test'') < 200
   \<and> take 1 (rev (sanitizeFilename ''hello   world__test'')) \<noteq> ''_''"
proof -
  have v: "sanitizeFilename ''hello   world__test'' = ''hello_world_test''"
    by (simp add: sanitizeFilename_def hostile_def is_space_def strip_edges_def)
  have l: "length (sanitizeFilename ''hello   world__test'') < 200" by (simp add: v)
  note w = sanitizeFilename_spec [of "''hello   world__test''"]
  have t: "length (sanitizeFilename ''hello   world__test'') < 200
            \<longrightarrow> take 1 (rev (sanitizeFilename ''hello   world__test'')) \<noteq> ''_''"
    using w by blast
  have p: "length (sanitizeFilename ''hello   world__test'') \<le> 200"
    using w by blast
  have c: "list_all (\<lambda>c. \<not> hostile c \<and> \<not> is_space c) (sanitizeFilename ''hello   world__test'')"
    using w by blast
  have d: "\<not> doubled (CHR ''_'') (sanitizeFilename ''hello   world__test'')"
    using w by blast
  from t l have "take 1 (rev (sanitizeFilename ''hello   world__test'')) \<noteq> ''_''" by (rule mp)
  then show ?thesis by (intro conjI v p c d l)
qed

section \<open>Properties of the analyzer's date ranges\<close>

lemma all_matches_iso_archive: "all_matches iso_archive = []"
  by code_simp

lemma written_archive:
  "fst (saveChat utc_host noon Map.empty ''Alice'' [alice1, alice2] ''out'') ''out/Alice.md'' =
     Some (''# Alice\<newline>\<newline>Exported: 2025-06-17T12:00:00.000Z\<newline>\<newline>''
           @ ''## Sunday, June 15, 2025\<newline>\<newline>''
           @ ''**Alice** [2025-06-15T10:30:00Z]:\<newline>Hello\<newline>\<newline>''
           @ ''*[2025-06-15T11:00:00Z]:*\<newline>Hello\<newline>\<newline>''
           @ ''<!-- last-message: 2025-06-15T11:00:00Z -->\<newline>'')"
  by code_simp

lemma legacy_archive_range:
  "extractDateRange utc_host legacy_archive = Some (1749983400000, 1749985200000, 2)"
  by code_simp

text \<open>
  C5.  The date-range extraction of the analyzer looks for the legacy format
  \<open>[DD.MM.YYYY, HH:MM]\<close> only.  On the archive of the repository's own test for ISO 8601
  timestamps it finds no timestamp and returns \<open>null\<close>, on every host; the same holds for
  the archive that \<open>saveChat\<close> writes for two messages.  (The legacy archive of the
  sibling test does give a range: \<open>legacy_archive_range\<close>.)
\<close>

theorem extractDateRange_iso_archive:
  "extractDateRange H iso_archive = None
   \<and> (case fst (saveChat utc_host noon Map.empty ''Alice'' [alice1, alice2] ''out'') ''out/Alice.md'' of
        None \<Rightarrow> False
      | Some content \<Rightarrow> extractDateRange utc_host content = None)"
proof -
  have a: "extractDateRange H iso_archive = None"
    by (simp add: extractDateRange_def all_matches_iso_archive)
  have b: "extractDateRange utc_host
             (''# Alice\<newline>\<newline>Exported: 2025-06-17T12:00:00.000Z\<newline>\<newline>''
              @ ''## Sunday, June 15, 2025\<newline>\<newline>''
              @ ''**Alice** [2025-06-15T10:30:00Z]:\<newline>Hello\<newline>\<newline>''
              @ ''*[2025-06-15T11:00:00Z]:*\<newline>Hello\<newline>\<newline>''
              @ ''<!-- last-message: 2025-06-15T11:00:00Z -->\<newline>'') = None"
    by code_simp
  show ?thesis using a b by (simp only: written_archive option.case)
qed

section \<open>Properties of the extraction result\<close>

lemma extract_loop_eq: "extract_loop nodes = map message_of (filter well_formed nodes)"
  by (induction nodes) (auto simp: well_formed_def message_of_def split: option.splits)

lemma extract_result_eq:
  "extract_result nodes =
     \<lparr> messages = map message_of (filter well_formed nodes),
       error = (if nodes = [] then Some ''No messages could be extracted.'' else None) \<rparr>"
  by (simp add: extract_result_def extract_loop_eq)

text \<open>
  C6, as the code has it.  On a page with the chat list, both scripts end in the same way.
  \<open>nodes\<close> are the collected nodes that carry a message body, deduplicated, without the
  animated images and (scrolling up with a cutoff) inside the date range.  When there is
  no such node the result is the failure "No messages could be extracted."; when there
  is one, the result carries no error, and its messages are those of the nodes that have
  an author, a timestamp and a content element, in order: a node without one of them is
  passed over and fails nothing.
\<close>

theorem extraction_outcome:
  assumes "chat_pane pg"
  shows "getScrollDownExtractionScript pg =
           \<lparr> messages = map message_of (filter well_formed (down_nodes pg)),
             error = (if down_nodes pg = [] then Some ''No messages could be extracted.'' else None) \<rparr>
         \<and> getExtractionScript H now days since pg =
           map_option
             (\<lambda>nodes. \<lparr> messages = map message_of (filter well_formed nodes),
                        error = (if nodes = [] then Some ''No messages could be extracted.''
                                 else None) \<rparr>)
             (up_nodes H now days since pg)"
  using assms
  by (simp add: getScrollDownExtractionScript_def getExtractionScript_def extract_result_eq
        cong: map_option_cong)

theorem extraction_outcome_witness:
  "chat_pane (still_page [malformed, complete])
   \<and> getScrollDownExtractionScript (still_page [malformed, complete]) =
       \<lparr> messages = [alice2], error = None \<rparr>
   \<and> getExtractionScript utc_host 0 (- 1) None (still_page [malformed, complete]) =
       Some \<lparr> messages = [alice2], error = None \<rparr>"
proof -
  have cp: "chat_pane (still_page [malformed, complete])" by (simp add: still_page_def)
  have dn: "down_nodes (still_page [malformed, complete]) = [malformed, complete]"
    by code_simp
  have un: "up_nodes utc_host 0 (- 1) None (still_page [malformed, complete])
              = Some [malformed, complete]"
    by code_simp
  have ms: "map message_of (filter well_formed [malformed, complete]) = [alice2]"
    by code_simp
  show ?thesis
    using extraction_outcome [OF cp, of utc_host 0 "- 1" None] cp
    unfolding dn un option.map ms by simp
qed

text \<open>
  C6, as the specification has it, fails where nodes are collected but every one of them
  is malformed: the result is an empty list of messages with no error, in both scripts.
\<close>

theorem all_malformed_is_silent:
  "getExtractionScript utc_host 0 (- 1) None (still_page [malformed]) =
     Some \<lparr> messages = [], error = None \<rparr>
   \<and> getScrollDownExtractionScript (still_page [malformed]) = \<lparr> messages = [], error = None \<rparr>"
  by code_simp

section \<open>Properties of the incremental store\<close>

text \<open>
  C10.  When the file of the archive is there but holds no cursor marker, \<open>saveChat\<close> with
  a batch that is not empty writes the document of a fresh export over it, made of the
  chat name, the time of the export and the whole batch, and returns the length of the
  batch: nothing of the text that was in the file remains.
\<close>

theorem saveChat_overwrites_without_marker:
  assumes "fs (file_path H outputDir chatName) = Some existing"
    and "search cursor_at existing = None"
    and "batch \<noteq> []"
  shows "saveChat H now fs chatName batch outputDir =
           (fs(file_path H outputDir chatName \<mapsto> fresh_document H now chatName batch),
            length batch)"
  using assms
  by (simp add: saveChat_def getLatestTimestamp_def file_path_def fresh_document_def fresh_body_def
        cursor_marker_def Let_def)

theorem saveChat_overwrites_without_marker_witness:
  "[''out/Chat.md'' \<mapsto> unmarked] (file_path utc_host ''out'' ''Chat'') = Some unmarked
   \<and> search cursor_at unmarked = None
   \<and> saveChat utc_host noon [''out/Chat.md'' \<mapsto> unmarked] ''Chat'' [alice1] ''out'' =
       ([''out/Chat.md'' \<mapsto> unmarked]
          (file_path utc_host ''out'' ''Chat'' \<mapsto> fresh_document utc_host noon ''Chat'' [alice1]), 1)
   \<and> fresh_document utc_host noon ''Chat'' [alice1] =
       ''# Chat\<newline>\<newline>Exported: 2025-06-17T12:00:00.000Z\<newline>\<newline>''
       @ ''## Sunday, June 15, 2025\<newline>\<newline>''
       @ ''**Alice** [2025-06-15T10:30:00Z]:\<newline>Hello\<newline>\<newline>''
       @ ''<!-- last-message: 2025-06-15T10:30:00Z -->\<newline>''"
proof -
  have p: "file_path utc_host ''out'' ''Chat'' = ''out/Chat.md''" by code_simp
  have a: "[''out/Chat.md'' \<mapsto> unmarked] (file_path utc_host ''out'' ''Chat'') = Some unmarked"
    by (simp add: p)
  have b: "search cursor_at unmarked = None" by code_simp
  have d: "fresh_document utc_host noon ''Chat'' [alice1] =
       ''# Chat\<newline>\<newline>Exported: 2025-06-17T12:00:00.000Z\<newline>\<newline>''
       @ ''## Sunday, June 15, 2025\<newline>\<newline>''
       @ ''**Alice** [2025-06-15T10:30:00Z]:\<newline>Hello\<newline>\<newline>''
       @ ''<!-- last-message: 2025-06-15T10:30:00Z -->\<newline>''"
    by code_simp
  show ?thesis
    using saveChat_overwrites_without_marker
            [where fs = "[''out/Chat.md'' \<mapsto> unmarked]" and H = utc_host and outputDir = "''out''"
               and chatName = "''Chat''" and existing = unmarked and batch = "[alice1]"
               and now = noon]
          a b d
    by simp
qed

section \<open>Properties of the deduplication and sequencing\<close>



lemma length_js_insert: "length (js_insert cmp x ys) = Suc (length ys)"
  by (induction ys) auto

lemma length_js_sort: "length (js_sort cmp xs) = length xs"
  unfolding js_sort_def by (induction xs) (auto simp: length_js_insert)























section \<open>Properties of the scroll loops\<close>

lemma seen_Suc: "seen vw c0 (Suc k) = seen vw c0 k @ vw (Suc k)"
  by (simp add: seen_def)

lemma seen_0: "seen vw c0 0 = c0"
  by (simp add: seen_def)

lemma scroll_up_never_leaves:
  assumes ch: "\<And>k. changed (getOldestTimestamp H (seen vw c0 (Suc k)))
                        (getOldestTimestamp H (seen vw c0 (Suc (Suc k))))"
  shows "scroll_up H None vw c0 0 None 0 = None"
proof (rule ccontr)
  assume "scroll_up H None vw c0 0 None 0 \<noteq> None"
  then obtain y where y: "scroll_up H None vw c0 0 None 0 = Some y" by blast
  define Inv where "Inv = (\<lambda>H' (cut :: date option) vw' col (prev :: date option) it.
      H' = H \<and> cut = None \<and> vw' = vw \<and> col = seen vw c0 it
      \<and> prev = (if it = 0 then None else getOldestTimestamp H (seen vw c0 it)))"
  have "\<not> Inv H None vw c0 None 0"
  proof (rule scroll_up.raw_induct[where P = "\<lambda>H' cut vw' col n prev it y. \<not> Inv H' cut vw' col prev it", OF _ y])
    fix f H' cut vw' col prev and n it :: nat and r :: "raw_node list \<times> nat"
    assume ih: "\<And>H' cut vw' col n prev it r. f H' cut vw' col n prev it = Some r \<Longrightarrow> \<not> Inv H' cut vw' col prev it"
      and st: "(let scrollIter1 = it + 1; collected1 = col @ vw' scrollIter1
         in if cutoff_hit H' cut collected1 then Some (collected1, scrollIter1)
            else let currentOldest = getOldestTimestamp H' collected1
                 in if \<not> changed prev currentOldest
                    then if 3 \<le> n + 1 then Some (collected1, scrollIter1)
                         else f H' cut vw' collected1 (n + 1) currentOldest scrollIter1
                    else f H' cut vw' collected1 0 currentOldest scrollIter1) = Some r"
    show "\<not> Inv H' cut vw' col prev it"
    proof
      assume inv: "Inv H' cut vw' col prev it"
      then have e: "H' = H" "cut = None" "vw' = vw" "col = seen vw c0 it"
        and p: "prev = (if it = 0 then None else getOldestTimestamp H (seen vw c0 it))"
        by (simp_all add: Inv_def)
      have c1: "seen vw c0 it @ vw (it + 1) = seen vw c0 (Suc it)" by (simp add: seen_Suc)
      have chg: "changed prev (getOldestTimestamp H (seen vw c0 (Suc it)))"
      proof (cases it)
        case 0
        then show ?thesis by (simp add: p changed_def)
      next
        case (Suc k)
        then show ?thesis using ch[of k] by (simp add: p)
      qed
      have "f H None vw (seen vw c0 (Suc it)) 0 (getOldestTimestamp H (seen vw c0 (Suc it))) (Suc it) = Some r"
        using st chg unfolding e Let_def c1 by (simp add: cutoff_hit_def)
      then have "\<not> Inv H None vw (seen vw c0 (Suc it)) (getOldestTimestamp H (seen vw c0 (Suc it))) (Suc it)"
        by (rule ih)
      then show False by (simp add: Inv_def)
    qed
  qed
  then show False by (simp add: Inv_def seen_0)
qed

lemma scroll_down_bounded: "snd (scroll_down vw step collected n p) \<le> max step 5000"
proof (induction vw step collected n p rule: scroll_down.induct)
  case (1 vw step collected noChangeCount prevCount)
  show ?case
  proof (cases "step < 5000")
    case False
    then show ?thesis by (subst scroll_down.simps) simp
  next
    case True
    note ih = "1.IH"[OF True refl refl refl refl refl]
    show ?thesis
      by (subst scroll_down.simps) (use True ih in \<open>auto simp: Let_def split: if_splits\<close>)
  qed
qed

lemma scroll_up_stalls:
  "getExtractionScript utc_host 0 0 None (still_page [complete] \<lparr> scrollable := True \<rparr>)
     = Some \<lparr> messages = [alice2], error = None \<rparr>
   \<and> scroll_up utc_host None (\<lambda>k. [complete]) [complete, complete] 0 None 0
     = Some (replicate 6 complete, 4)"
  by code_simp

lemma oldest_loop_untimed:
  "list_all (\<lambda>n. datetime n = None) ns \<Longrightarrow> oldest_loop H acc ns = acc"
  by (induction ns arbitrary: acc) auto

lemma seen_untimed:
  assumes "list_all (\<lambda>n. datetime n = None) c0" and "\<And>k. list_all (\<lambda>n. datetime n = None) (vw k)"
  shows "list_all (\<lambda>n. datetime n = None) (seen vw c0 k)"
  using assms by (induction k) (auto simp: seen_Suc seen_0)

text \<open>
  C4.  Scrolling down, the loop is a \<open>for\<close> loop of at most 5000 cycles
  (\<open>scroll_down_bounded\<close>).  Scrolling up, the loop is \<open>while (true)\<close> and counts its cycles
  for the log only.  It leaves after three cycles without change (\<open>scroll_up_stalls\<close>: four
  cycles on a page that shows one message with its timestamp), but with no cutoff (all history, no timestamp to resume from), on a page
  where the test \<open>changed\<close> of the loop holds at every cycle - the oldest timestamp seen
  differs from the one of the cycle before, or there is none - the script never returns.
\<close>

theorem scroll_up_has_no_ceiling:
  assumes "chat_pane pg" and "scrollable pg"
    and "\<And>k. changed (getOldestTimestamp H (seen (view pg) (children0 pg @ children1 pg) (Suc k)))
                   (getOldestTimestamp H (seen (view pg) (children0 pg @ children1 pg) (Suc (Suc k))))"
  shows "getExtractionScript H now 0 None pg = None"
proof -
  have "scroll_up H None (view pg) (children0 pg @ children1 pg) 0 None 0 = None"
    by (rule scroll_up_never_leaves) (rule assms(3))
  then show ?thesis
    using assms(1,2)
    by (simp add: getExtractionScript_def up_nodes_def up_collected_def effective_cutoff_def
          cutoff_date_def since_date_def)
qed

theorem scroll_up_has_no_ceiling_witness:
  "chat_pane (still_page [untimed] \<lparr> scrollable := True \<rparr>)
   \<and> scrollable (still_page [untimed] \<lparr> scrollable := True \<rparr>)
   \<and> getExtractionScript utc_host 0 0 None (still_page [untimed] \<lparr> scrollable := True \<rparr>) = None"
proof -
  let ?pg = "still_page [untimed] \<lparr> scrollable := True \<rparr>"
  have a: "chat_pane ?pg" and b: "scrollable ?pg" by (simp_all add: still_page_def)
  have u: "list_all (\<lambda>n. datetime n = None) (seen (view ?pg) (children0 ?pg @ children1 ?pg) k)" for k
    by (rule seen_untimed) (simp_all add: still_page_def untimed_def)
  have o: "getOldestTimestamp utc_host (seen (view ?pg) (children0 ?pg @ children1 ?pg) k) = None" for k
    unfolding getOldestTimestamp_def by (rule oldest_loop_untimed) (rule u)
  have c: "changed (getOldestTimestamp utc_host (seen (view ?pg) (children0 ?pg @ children1 ?pg) (Suc k)))
             (getOldestTimestamp utc_host (seen (view ?pg) (children0 ?pg @ children1 ?pg) (Suc (Suc k))))" for k
    unfolding o by (simp add: changed_def)
  show ?thesis using scroll_up_has_no_ceiling [OF a b c, of 0] a b by simp
qed

section \<open>Properties of the analyzer's report\<close>








section \<open>Properties of the rendering\<close>

text \<open>
  C8.  For two messages of the same author (with a name that is not empty; the day string
  of a date is never empty on a real host), the rendering is exactly this.  On different
  calendar days: the day heading of the first, its author label in bold, its content,
  then the separator \<open>---\<close>, the day heading of the second, the author label in bold again
  and its content: two day headings, one separator, two bold labels.  On the same day: one
  day heading, the author label in bold once, the content of the first, then the
  time-only continuation line and the content of the second.
\<close>

theorem day_grouping:
  assumes "author m1 = author m2" and "author m1 \<noteq> []" and "day_of H m1 \<noteq> []"
  shows "messagesToMarkdown H [m1, m2] =
           join [CHR 0x0A]
             (if day_of H m1 \<noteq> day_of H m2
              then [heading_line H m1, [], author_line m1] @ content_lines m1 @ [[]]
                   @ [[], ''---'', [], heading_line H m2, [], author_line m2] @ content_lines m2 @ [[]]
              else [heading_line H m1, [], author_line m1] @ content_lines m1 @ [[]]
                   @ [continuation_line m2] @ content_lines m2 @ [[]])"
  using assms
  by (auto simp: messagesToMarkdown_def Let_def day_of_def heading_line_def author_line_def
        continuation_line_def content_lines_def formatTimestamp_def)

theorem day_grouping_witness:
  "messagesToMarkdown utc_host [june15, june16] =
     ''## Sunday, June 15, 2025\<newline>\<newline>**Alice** [2025-06-15T10:00Z]:\<newline>Hello\<newline>\<newline>''
     @ ''\<newline>---\<newline>\<newline>''
     @ ''## Monday, June 16, 2025\<newline>\<newline>**Alice** [2025-06-16T10:00Z]:\<newline>Hello\<newline>''
   \<and> count_lines (prefix ''## '') (messagesToMarkdown utc_host [june15, june16]) = 2
   \<and> count_lines (\<lambda>l. l = ''---'') (messagesToMarkdown utc_host [june15, june16]) = 1
   \<and> count_lines (prefix ''**Alice**'') (messagesToMarkdown utc_host [june15, june16]) = 2
   \<and> messagesToMarkdown utc_host [alice1, alice2] =
     ''## Sunday, June 15, 2025\<newline>\<newline>**Alice** [2025-06-15T10:30:00Z]:\<newline>Hello\<newline>\<newline>''
     @ ''*[2025-06-15T11:00:00Z]:*\<newline>Hello\<newline>''
   \<and> count_lines (prefix ''## '') (messagesToMarkdown utc_host [alice1, alice2]) = 1
   \<and> count_lines (\<lambda>l. l = ''---'') (messagesToMarkdown utc_host [alice1, alice2]) = 0
   \<and> count_lines (prefix ''**Alice**'') (messagesToMarkdown utc_host [alice1, alice2]) = 1
   \<and> count_lines (prefix ''*['') (messagesToMarkdown utc_host [alice1, alice2]) = 1"
proof -
  have a: "author june15 = author june16" "author june15 \<noteq> []" "day_of utc_host june15 \<noteq> []"
    by code_simp+
  have b: "author alice1 = author alice2" "author alice1 \<noteq> []" "day_of utc_host alice1 \<noteq> []"
    by code_simp+
  have r1: "join [CHR 0x0A]
             (if day_of utc_host june15 \<noteq> day_of utc_host june16
              then [heading_line utc_host june15, [], author_line june15] @ content_lines june15 @ [[]]
                   @ [[], ''---'', [], heading_line utc_host june16, [], author_line june16] @ content_lines june16 @ [[]]
              else [heading_line utc_host june15, [], author_line june15] @ content_lines june15 @ [[]]
                   @ [continuation_line june16] @ content_lines june16 @ [[]])
     = ''## Sunday, June 15, 2025\<newline>\<newline>**Alice** [2025-06-15T10:00Z]:\<newline>Hello\<newline>\<newline>''
     @ ''\<newline>---\<newline>\<newline>''
     @ ''## Monday, June 16, 2025\<newline>\<newline>**Alice** [2025-06-16T10:00Z]:\<newline>Hello\<newline>''"
    by code_simp
  have r2: "join [CHR 0x0A]
             (if day_of utc_host alice1 \<noteq> day_of utc_host alice2
              then [heading_line utc_host alice1, [], author_line alice1] @ content_lines alice1 @ [[]]
                   @ [[], ''---'', [], heading_line utc_host alice2, [], author_line alice2] @ content_lines alice2 @ [[]]
              else [heading_line utc_host alice1, [], author_line alice1] @ content_lines alice1 @ [[]]
                   @ [continuation_line alice2] @ content_lines alice2 @ [[]])
     = ''## Sunday, June 15, 2025\<newline>\<newline>**Alice** [2025-06-15T10:30:00Z]:\<newline>Hello\<newline>\<newline>''
     @ ''*[2025-06-15T11:00:00Z]:*\<newline>Hello\<newline>''"
    by code_simp
  have m1: "messagesToMarkdown utc_host [june15, june16] =
     ''## Sunday, June 15, 2025\<newline>\<newline>**Alice** [2025-06-15T10:00Z]:\<newline>Hello\<newline>\<newline>''
     @ ''\<newline>---\<newline>\<newline>''
     @ ''## Monday, June 16, 2025\<newline>\<newline>**Alice** [2025-06-16T10:00Z]:\<newline>Hello\<newline>''"
    using day_grouping [OF a] r1 by (rule trans)
  have m2: "messagesToMarkdown utc_host [alice1, alice2] =
     ''## Sunday, June 15, 2025\<newline>\<newline>**Alice** [2025-06-15T10:30:00Z]:\<newline>Hello\<newline>\<newline>''
     @ ''*[2025-06-15T11:00:00Z]:*\<newline>Hello\<newline>''"
    using day_grouping [OF b] r2 by (rule trans)
  have c1: "count_lines (prefix ''## '') (messagesToMarkdown utc_host [june15, june16]) = 2"
    unfolding m1 by code_simp
  have c2: "count_lines (\<lambda>l. l = ''---'') (messagesToMarkdown utc_host [june15, june16]) = 1"
    unfolding m1 by code_simp
  have c3: "count_lines (prefix ''**Alice**'') (messagesToMarkdown utc_host [june15, june16]) = 2"
    unfolding m1 by code_simp
  have c4: "count_lines (prefix ''## '') (messagesToMarkdown utc_host [alice1, alice2]) = 1"
    unfolding m2 by code_simp
  have c5: "count_lines (\<lambda>l. l = ''---'') (messagesToMarkdown utc_host [alice1, alice2]) = 0"
    unfolding m2 by code_simp
  have c6: "count_lines (prefix ''**Alice**'') (messagesToMarkdown utc_host [alice1, alice2]) = 1"
    unfolding m2 by code_simp
  have c7: "count_lines (prefix ''*['') (messagesToMarkdown utc_host [alice1, alice2]) = 1"
    unfolding m2 by code_simp
  show ?thesis by (intro conjI m1 c1 c2 c3 m2 c4 c5 c6 c7)
qed

section \<open>Properties of the cursor\<close>
























text \<open>
  The two other conditions of the second call are needed as well.  A timestamp that the
  marker's pattern does not match leaves an archive without a cursor, and a marker quoted
  in the content of a message is read as the cursor, being the first in the file: in both
  cases the second call writes the message again.
\<close>

lemma unmatched_stamp_is_written_again:
  "snd (saveChat utc_host evening
          (fst (saveChat utc_host noon Map.empty ''Alice'' [legacy_stamped] ''out''))
          ''Alice'' [legacy_stamped] ''out'') = 1
   \<and> getLatestTimestamp utc_host
         (fst (saveChat utc_host noon Map.empty ''Alice'' [legacy_stamped] ''out'')) ''out/Alice.md''
       = None"
  by code_simp

lemma quoted_marker_is_read_as_cursor:
  "snd (saveChat utc_host evening
          (fst (saveChat utc_host noon Map.empty ''Alice'' [quoting] ''out''))
          ''Alice'' [quoting] ''out'') = 1
   \<and> getLatestTimestamp utc_host
         (fst (saveChat utc_host noon Map.empty ''Alice'' [quoting] ''out'')) ''out/Alice.md''
       = Some (iso_parse ''2000-01-01T00:00:00Z'')"
  by code_simp

end
